theory Spec2Isabelle
  imports Main "HOL-Library.Sublist" "HOL-Library.Word"
begin

section \<open>Python values\<close>

text \<open>
  The values that \<^verbatim>\<open>json.loads\<close> and Flask's \<^verbatim>\<open>get_json\<close> hand to the proxy.
  \<^verbatim>\<open>None\<close> is \<open>JNull\<close>; a float is kept as its IEEE-754 bit pattern; a \<^verbatim>\<open>dict\<close> is an
  association list in insertion order, looked up with \<open>map_of\<close>.  A Python \<^verbatim>\<open>str\<close> is a
  \<open>string\<close> whose characters stand for code points below 256.
\<close>

datatype json =
    JNull
  | JBool bool
  | JInt int
  | JFloat "64 word"
  | JStr string
  | JList "json list"
  | JDict "(string \<times> json) list"

text \<open>Python truthiness, as used by \<^verbatim>\<open>if message\<close>, \<^verbatim>\<open>if not binary\<close>, \<^verbatim>\<open>message or {}\<close>.\<close>

fun truthy :: "json \<Rightarrow> bool" where
  "truthy JNull = False"
| "truthy (JBool b) = b"
| "truthy (JInt i) = (i \<noteq> 0)"
| "truthy (JFloat w) = (w \<noteq> 0 \<and> w \<noteq> 0x8000000000000000)"
| "truthy (JStr s) = (s \<noteq> [])"
| "truthy (JList xs) = (xs \<noteq> [])"
| "truthy (JDict d) = (d \<noteq> [])"

text \<open>An exception object: its class name and \<^verbatim>\<open>str(e)\<close>.\<close>

datatype exn = Exn (exn_type: string) (exn_str: string)

section \<open>String operations\<close>

definition NL :: char where
  "NL = CHR 0x0A"

text \<open>\<^verbatim>\<open>str.isspace\<close> on one code point below 256.\<close>

definition isspace :: "char \<Rightarrow> bool" where
  "isspace c =
     (let n = (of_char c :: nat)
      in (9 \<le> n \<and> n \<le> 13) \<or> (28 \<le> n \<and> n \<le> 32) \<or> n = 133 \<or> n = 160)"

text \<open>\<^verbatim>\<open>s.strip()\<close>\<close>

definition strip :: "string \<Rightarrow> string" where
  "strip s = rev (dropWhile isspace (rev (dropWhile isspace s)))"

text \<open>
  \<^verbatim>\<open>s.rfind(c, start, end)\<close> for a one-character \<^verbatim>\<open>c\<close>: the bounds are clamped as
  Python clamps slice indices (a negative bound counts from the end), the result is the
  highest index in the range that holds \<^verbatim>\<open>c\<close>, or \<open>-1\<close>.
\<close>

definition clamp_index :: "nat \<Rightarrow> int \<Rightarrow> nat" where
  "clamp_index n i = (if i < 0 then nat (max 0 (i + int n)) else min (nat i) n)"

fun rfind_below :: "string \<Rightarrow> char \<Rightarrow> nat \<Rightarrow> nat \<Rightarrow> int" where
  "rfind_below s c lo 0 = -1"
| "rfind_below s c lo (Suc i) =
     (if i < lo then -1 else if s ! i = c then int i else rfind_below s c lo i)"

definition rfind :: "string \<Rightarrow> char \<Rightarrow> int \<Rightarrow> int \<Rightarrow> int" where
  "rfind s c start end' =
     rfind_below s c (clamp_index (length s) start) (clamp_index (length s) end')"

section \<open>The process and its collaborators\<close>

text \<open>
  What the proxy reads and writes outside its own variables: the file system (kept
  abstract), the two log streams as the text written so far, and \<^verbatim>\<open>os.environ\<close>.
\<close>

record 'fs process =
  files :: 'fs
  stdout :: string
  stderr :: string
  environ :: "string \<rightharpoonup> string"

text \<open>
  The library and operating system calls of \<^verbatim>\<open>actionproxy.py\<close>, as parameters:
  \<^item> \<open>json_dumps\<close>, \<open>json_loads\<close> (None: the call raises), \<open>utf8_decode\<close>
    (\<^verbatim>\<open>bytes.decode('utf-8')\<close>), \<open>py_str\<close> (\<^verbatim>\<open>'%s' % msg\<close>), \<open>str_upper\<close>;
  \<^item> \<open>popen_communicate argv env input fs\<close>: \<^verbatim>\<open>subprocess.Popen(argv, env=env, ...)\<close>
    followed by \<^verbatim>\<open>p.communicate(input=input.encode())\<close>: an exception, or the bytes the
    child wrote to its output and error streams; the child may change the files;
  \<^item> \<open>write_file path code fs\<close>: \<^verbatim>\<open>codecs.open(path, 'w', 'utf-8')\<close> and
    \<^verbatim>\<open>fp.write(code)\<close>;
  \<^item> \<open>unzip_to dest code fs\<close>: \<^verbatim>\<open>base64.b64decode\<close>, \<^verbatim>\<open>zipfile.ZipFile\<close>,
    \<^verbatim>\<open>extractall(dest)\<close> and \<^verbatim>\<open>close\<close>;
  \<^item> \<open>is_executable path fs\<close>: \<^verbatim>\<open>os.path.isfile(path) and os.access(path, os.X_OK)\<close>.
\<close>

record 'fs lib =
  json_dumps :: "json \<Rightarrow> string"
  json_loads :: "string \<Rightarrow> json option"
  utf8_decode :: "string \<Rightarrow> exn + string"
  py_str :: "json \<Rightarrow> string"
  str_upper :: "string \<Rightarrow> string"
  popen_communicate ::
    "string list \<Rightarrow> (string \<rightharpoonup> string) \<Rightarrow> string \<Rightarrow> 'fs \<Rightarrow> 'fs \<times> (exn + string \<times> string)"
  write_file :: "string \<Rightarrow> json \<Rightarrow> 'fs \<Rightarrow> 'fs \<times> exn option"
  unzip_to :: "string \<Rightarrow> json \<Rightarrow> 'fs \<Rightarrow> 'fs \<times> exn option"
  is_executable :: "string \<Rightarrow> 'fs \<Rightarrow> bool"

text \<open>
  \<^verbatim>\<open>stop\<close>, \<^verbatim>\<open>pause\<close> and \<^verbatim>\<open>start\<close> are methods a subclass may override: the number
  of parameters the method declares after \<^verbatim>\<open>self\<close>, and what its body does once a call has
  bound them.
\<close>

datatype 'fs hook = Hook nat "'fs process \<Rightarrow> 'fs process \<times> exn option"

text \<open>
  An \<^verbatim>\<open>ActionRunner\<close> instance: the three paths set by \<^verbatim>\<open>__init__\<close> and the overridable
  methods.  \<open>epilogue\<close> and \<open>build\<close> return a Python value or raise.
\<close>

record 'fs runner =
  source :: string
  binary :: string
  zipdest :: string
  preinit :: "'fs process \<Rightarrow> 'fs process \<times> exn option"
  epilogue :: "json \<Rightarrow> 'fs process \<Rightarrow> 'fs process \<times> (exn + json)"
  build :: "json \<Rightarrow> 'fs process \<Rightarrow> 'fs process \<times> (exn + json)"
  stop :: "'fs hook"
  pause :: "'fs hook"
  start :: "'fs hook"

text \<open>\<^verbatim>\<open>ActionRunner()\<close>, as \<^verbatim>\<open>__main__\<close> constructs it: every method as the class defines it.\<close>

definition ActionRunner :: "'fs runner" where
  "ActionRunner =
     \<lparr> source = ''/action/exec'',
       binary = ''/action/exec'',
       zipdest = ''/action'',
       preinit = (\<lambda>p. (p, None)),
       epilogue = (\<lambda>init_arguments p. (p, Inr JNull)),
       build = (\<lambda>init_arguments p. (p, Inr JNull)),
       stop = Hook 2 (\<lambda>p. (p, None)),
       pause = Hook 2 (\<lambda>p. (p, None)),
       start = Hook 2 (\<lambda>p. (p, None)) \<rparr>"

definition LOG_SENTINEL :: string where
  "LOG_SENTINEL = ''XXX_THE_END_OF_A_WHISK_ACTIVATION_XXX''"

text \<open>\<^verbatim>\<open>log(msg)\<close>: one line on each stream.\<close>

definition log :: "string \<Rightarrow> ('fs, 'z) process_scheme \<Rightarrow> ('fs, 'z) process_scheme" where
  "log msg p = p\<lparr> stdout := stdout p @ msg @ [NL], stderr := stderr p @ msg @ [NL] \<rparr>"

section \<open>ActionRunner.run\<close>

text \<open>
  The value under \<^verbatim>\<open>'error'\<close> in the dictionary \<^verbatim>\<open>_error\<close> returns is what it was called
  with: the last line (a \<^verbatim>\<open>str\<close>) or the exception object.
\<close>

datatype errmsg = MsgStr string | MsgExc exn

datatype result = Dict "(string \<times> json) list" | ErrorExc exn

fun errmsg_str :: "errmsg \<Rightarrow> string" where
  "errmsg_str (MsgStr s) = s"
| "errmsg_str (MsgExc e) = exn_str e"

fun error_dict :: "errmsg \<Rightarrow> result" where
  "error_dict (MsgStr s) = Dict [(''error'', JStr s)]"
| "error_dict (MsgExc e) = ErrorExc e"

definition runner_error :: "errmsg \<Rightarrow> 'fs process \<Rightarrow> 'fs process \<times> (exn + int \<times> result)" where
  "runner_error msg p = (p\<lparr> stdout := stdout p @ errmsg_str msg @ [NL] \<rparr>, Inr (502, error_dict msg))"

text \<open>The argument vector given to \<^verbatim>\<open>Popen\<close>, chosen by \<^verbatim>\<open>len(input) > 131071\<close>.\<close>

definition invocation :: "string \<Rightarrow> string \<Rightarrow> string list" where
  "invocation bin input = (if length input > 131071 then [bin] else [bin, input])"

text \<open>
  Lines 179 to 187: the text forwarded to \<^verbatim>\<open>sys.stdout\<close> (empty when nothing is written)
  and \<^verbatim>\<open>lastLine\<close>.
\<close>

definition split_output :: "string \<Rightarrow> string \<times> string" where
  "split_output out =
     (let lastNewLine = rfind out NL 0 (int (length out) - 1)
      in if lastNewLine \<noteq> -1
         then (take (nat (lastNewLine + 1)) out, strip (drop (nat (lastNewLine + 1)) out))
         else ([], strip out))"

text \<open>
  Lines 167 to 199, from what \<^verbatim>\<open>Popen\<close> and \<^verbatim>\<open>communicate\<close> gave: an exception is
  caught and reported through \<^verbatim>\<open>_error\<close>; a failing \<^verbatim>\<open>decode\<close> leaves the method;
  writing the empty string to a stream is the same as not writing.
\<close>

definition run_output ::
  "'fs lib \<Rightarrow> 'fs process \<Rightarrow> 'fs \<times> (exn + string \<times> string) \<Rightarrow> 'fs process \<times> (exn + int \<times> result)" where
  "run_output L p r =
     (case r of
        (fs1, Inl e) \<Rightarrow> runner_error (MsgExc e) (p\<lparr> files := fs1 \<rparr>)
      | (fs1, Inr (obytes, ebytes)) \<Rightarrow>
          (let p1 = p\<lparr> files := fs1 \<rparr>
           in case utf8_decode L obytes of
                Inl x \<Rightarrow> (p1, Inl x)
              | Inr out \<Rightarrow>
                  (case utf8_decode L ebytes of
                     Inl x \<Rightarrow> (p1, Inl x)
                   | Inr err \<Rightarrow>
                       (let (logs, lastLine) = split_output out;
                            p2 = p1\<lparr> stdout := stdout p1 @ logs, stderr := stderr p1 @ err \<rparr>
                        in case json_loads L lastLine of
                             Some (JDict json_output) \<Rightarrow> (p2, Inr (200, Dict json_output))
                           | _ \<Rightarrow> runner_error (MsgStr lastLine) p2))))"

definition run ::
  "'fs lib \<Rightarrow> 'fs runner \<Rightarrow> (string \<times> json) list \<Rightarrow> (string \<rightharpoonup> string) \<Rightarrow> 'fs process
     \<Rightarrow> 'fs process \<times> (exn + int \<times> result)" where
  "run L self args env' p =
     (let input = json_dumps L (JDict args)
      in run_output L p
           (popen_communicate L (invocation (binary self) input) env' input (files p)))"

section \<open>ActionRunner.init\<close>

text \<open>\<^verbatim>\<open>initCodeFromString\<close>: a failing write raises; a missing key is a \<^verbatim>\<open>KeyError\<close>.\<close>

definition initCodeFromString ::
  "'fs lib \<Rightarrow> 'fs runner \<Rightarrow> (string \<times> json) list \<Rightarrow> 'fs process \<Rightarrow> 'fs process \<times> (exn + bool)" where
  "initCodeFromString L self message p =
     (case map_of message ''code'' of
        None \<Rightarrow> (p, Inl (Exn ''KeyError'' ''code''))
      | Some code \<Rightarrow>
          (case write_file L (source self) code (files p) of
             (fs1, Some e) \<Rightarrow> (p\<lparr> files := fs1 \<rparr>, Inl e)
           | (fs1, None) \<Rightarrow> (p\<lparr> files := fs1 \<rparr>, Inr True)))"

text \<open>
  \<^verbatim>\<open>initCodeFromZip\<close>: every exception is caught, printed with \<^verbatim>\<open>print('err', str(e))\<close>
  and turned into \<^verbatim>\<open>False\<close>.
\<close>

definition initCodeFromZip ::
  "'fs lib \<Rightarrow> 'fs runner \<Rightarrow> (string \<times> json) list \<Rightarrow> 'fs process \<Rightarrow> 'fs process \<times> (exn + bool)" where
  "initCodeFromZip L self message p =
     (case (case map_of message ''code'' of
              None \<Rightarrow> (files p, Some (Exn ''KeyError'' ''code''))
            | Some code \<Rightarrow> unzip_to L (zipdest self) code (files p)) of
        (fs1, None) \<Rightarrow> (p\<lparr> files := fs1 \<rparr>, Inr True)
      | (fs1, Some e) \<Rightarrow>
          (p\<lparr> files := fs1, stdout := stdout p @ ''err '' @ exn_str e @ [NL] \<rparr>, Inr False))"

definition verify :: "'fs lib \<Rightarrow> 'fs runner \<Rightarrow> 'fs process \<Rightarrow> bool" where
  "verify L self p = is_executable L (binary self) (files p)"

text \<open>The nested function \<^verbatim>\<open>prep\<close> of \<^verbatim>\<open>init\<close>.\<close>

definition prep ::
  "'fs lib \<Rightarrow> 'fs runner \<Rightarrow> (string \<times> json) list \<Rightarrow> 'fs process \<Rightarrow> 'fs process \<times> (exn + bool)" where
  "prep L self message p =
     (case preinit self p of
        (p1, Some e) \<Rightarrow> (p1, Inl e)
      | (p1, None) \<Rightarrow>
          (let p2 = log (py_str L (JDict message)) p1
           in if map_of message ''code'' \<noteq> None \<and> map_of message ''code'' \<noteq> Some JNull
              then (let bin = (case map_of message ''binary'' of Some b \<Rightarrow> b | None \<Rightarrow> JBool False)
                    in if \<not> truthy bin
                       then initCodeFromString L self message p2
                       else initCodeFromZip L self message p2)
              else (log ''no prep'' p2, Inr False)))"

text \<open>The end of \<^verbatim>\<open>init\<close>: verify, log the outcome, return it.\<close>

definition verified_result :: "'fs lib \<Rightarrow> 'fs runner \<Rightarrow> 'fs process \<Rightarrow> 'fs process \<times> (exn + bool)" where
  "verified_result L self p =
     (let verified = verify L self p
      in (log (''verified: '' @ (if verified then ''True'' else ''False'')) p, Inr verified))"

text \<open>
  \<^verbatim>\<open>init\<close>: an exception of \<^verbatim>\<open>prep\<close> leaves the method; one of \<^verbatim>\<open>epilogue\<close> or
  \<^verbatim>\<open>build\<close> is caught and gives \<^verbatim>\<open>False\<close>, as does either returning \<^verbatim>\<open>False\<close> itself.
\<close>

definition init ::
  "'fs lib \<Rightarrow> 'fs runner \<Rightarrow> (string \<times> json) list \<Rightarrow> 'fs process \<Rightarrow> 'fs process \<times> (exn + bool)" where
  "init L self message p =
     (case prep L self message p of
        (p1, Inl e) \<Rightarrow> (p1, Inl e)
      | (p1, Inr prepared) \<Rightarrow>
          if prepared
          then (case epilogue self (JDict message) p1 of
                  (p2, Inl e) \<Rightarrow> (p2, Inr False)
                | (p2, Inr r) \<Rightarrow>
                    if r = JBool False then (p2, Inr False)
                    else (case build self (JDict message) p2 of
                            (p3, Inl e) \<Rightarrow> (p3, Inr False)
                          | (p3, Inr r') \<Rightarrow>
                              if r' = JBool False then (p3, Inr False)
                              else verified_result L self p3))
          else verified_result L self p1)"

definition features :: string where
  "features = ''OK''"

section \<open>ActionRunner.env\<close>

text \<open>
  \<^verbatim>\<open>os.environ[key] = v\<close>: a value that is not a \<^verbatim>\<open>str\<close> is a \<^verbatim>\<open>TypeError\<close>; a NUL in the
  key or the value, or \<^verbatim>\<open>=\<close> in the key, is a \<^verbatim>\<open>ValueError\<close>.
\<close>

definition environ_setitem ::
  "string \<Rightarrow> json \<Rightarrow> (string \<rightharpoonup> string) \<Rightarrow> exn + (string \<rightharpoonup> string)" where
  "environ_setitem key v e =
     (case v of
        JStr s \<Rightarrow>
          if CHR 0x00 \<in> set key \<or> CHR 0x00 \<in> set s
          then Inl (Exn ''ValueError'' ''embedded null byte'')
          else if key = [] \<or> CHR ''='' \<in> set key
          then Inl (Exn ''ValueError'' ''illegal environment variable name'')
          else Inr (e(key \<mapsto> s))
      | _ \<Rightarrow> Inl (Exn ''TypeError'' ''str expected''))"

definition env_name :: "'fs lib \<Rightarrow> string \<Rightarrow> string" where
  "env_name L k = ''__OW_'' @ str_upper L k"

text \<open>
  The loop of \<^verbatim>\<open>env\<close> over \<^verbatim>\<open>message.items()\<close>.  It assigns into \<^verbatim>\<open>os.environ\<close> itself,
  so what was assigned before an exception stays.
\<close>

fun env_items ::
  "'fs lib \<Rightarrow> (string \<times> json) list \<Rightarrow> (string \<rightharpoonup> string) \<Rightarrow> (string \<rightharpoonup> string) \<times> exn option" where
  "env_items L [] e = (e, None)"
| "env_items L ((k, v) # kvs) e =
     (if k \<noteq> ''value''
      then (case environ_setitem (env_name L k) v e of
              Inl x \<Rightarrow> (e, Some x)
            | Inr e1 \<Rightarrow> env_items L kvs e1)
      else env_items L kvs e)"

text \<open>
  \<^verbatim>\<open>env\<close>: the local \<^verbatim>\<open>env\<close> is \<^verbatim>\<open>os.environ\<close>, not a copy, so the process environment is
  what the loop updates and what is returned.
\<close>

definition env ::
  "'fs lib \<Rightarrow> (string \<times> json) list \<Rightarrow> 'fs process \<Rightarrow> 'fs process \<times> (exn + (string \<rightharpoonup> string))" where
  "env L message p =
     (case env_items L message (environ p) of
        (e1, Some x) \<Rightarrow> (p\<lparr> environ := e1 \<rparr>, Inl x)
      | (e1, None) \<Rightarrow> (p\<lparr> environ := e1 \<rparr>, Inr e1))"

section \<open>The routes\<close>

text \<open>The attributes set on the Flask application \<^verbatim>\<open>proxy\<close>, and the process.\<close>

record 'fs server =
  proc :: "'fs process"
  rejectReinit :: bool
  initialized :: bool
  started :: bool

text \<open>The module-level assignments, from the environment the process starts with.\<close>

definition proxy_start :: "'fs process \<Rightarrow> 'fs server" where
  "proxy_start p =
     \<lparr> proc = p,
       rejectReinit = (environ p ''PROXY_ALLOW_REINIT'' \<noteq> Some ''1''),
       initialized = False,
       started = False \<rparr>"

text \<open>
  How a route function ends: it returns a response, calls \<^verbatim>\<open>flask.abort\<close>, or lets an
  exception escape to Flask.
\<close>

datatype body = JsonBody "(string \<times> json) list" | TextBody string

datatype outcome = Reply int body | Abort int | Unhandled exn

definition write_stderr :: "string \<Rightarrow> 'fs server \<Rightarrow> 'fs server" where
  "write_stderr s st = st\<lparr> proc := (proc st)\<lparr> stderr := stderr (proc st) @ s \<rparr> \<rparr>"

definition complete :: "outcome \<Rightarrow> 'fs server \<Rightarrow> 'fs server \<times> outcome" where
  "complete response st = (st\<lparr> proc := log LOG_SENTINEL (proc st) \<rparr>, response)"

definition error :: "string \<Rightarrow> int \<Rightarrow> 'fs server \<Rightarrow> 'fs server \<times> outcome" where
  "error msg code st = complete (Reply code (JsonBody [(''error'', JStr msg)])) st"

text \<open>
  Lines 245 to 251 and 316 to 321: the \<^verbatim>\<open>value\<close> of the request, None where the route
  gives up with 404 (the request is not a dictionary, or its \<^verbatim>\<open>value\<close> is not).
\<close>

definition request_value :: "json \<Rightarrow> (string \<times> json) list option" where
  "request_value message =
     (if \<not> truthy message then Some []
      else (case message of
              JDict d \<Rightarrow>
                (case map_of d ''value'' of
                   None \<Rightarrow> Some []
                 | Some (JDict v) \<Rightarrow> Some v
                 | Some _ \<Rightarrow> None)
            | _ \<Rightarrow> None))"

definition init_route :: "'fs lib \<Rightarrow> 'fs runner \<Rightarrow> json \<Rightarrow> 'fs server \<Rightarrow> 'fs server \<times> outcome" where
  "init_route L runner message st =
     (if rejectReinit st \<and> initialized st
      then (let msg = ''Cannot initialize the action more than once.''
            in error msg 403 (write_stderr (msg @ [NL]) st))
      else (let st1 = st\<lparr> proc := log (py_str L message) (proc st) \<rparr>
            in case request_value message of
                 None \<Rightarrow> (st1, Abort 404)
               | Some v \<Rightarrow>
                   (case init L runner v (proc st1) of
                      (p1, Inl e) \<Rightarrow>
                        error (''The action failed to generate or locate a binary with exception ''
                                 @ exn_str e @ ''. See logs for details.'') 502 (st1\<lparr> proc := p1 \<rparr>)
                    | (p1, Inr status) \<Rightarrow>
                        if status
                        then (st1\<lparr> proc := p1, started := False, initialized := True \<rparr>,
                              Reply 200 (TextBody features))
                        else error ''The action failed to generate or locate a binary with exception . See logs for details.''
                               502 (st1\<lparr> proc := p1 \<rparr>))))"

text \<open>
  A call \<^verbatim>\<open>runner.start()\<close>, \<^verbatim>\<open>runner.pause()\<close> or \<^verbatim>\<open>runner.stop()\<close>: it passes no argument,
  so it binds only if the method declares no parameter after \<^verbatim>\<open>self\<close>, and is a
  \<^verbatim>\<open>TypeError\<close> otherwise.
\<close>

fun call_no_args :: "string \<Rightarrow> 'fs hook \<Rightarrow> 'fs process \<Rightarrow> 'fs process \<times> exn option" where
  "call_no_args name (Hook n f) p =
     (if n = 0 then f p
      else (p, Some (Exn ''TypeError'' (name @ ''() missing required positional arguments''))))"

definition notify ::
  "string \<Rightarrow> string \<Rightarrow> 'fs hook \<Rightarrow> 'fs server \<Rightarrow> 'fs server \<times> outcome" where
  "notify label name h st =
     (let st1 = st\<lparr> proc := log label (proc st) \<rparr>
      in case call_no_args name h (proc st1) of
           (p1, Some e) \<Rightarrow> (st1\<lparr> proc := p1 \<rparr>, Unhandled e)
         | (p1, None) \<Rightarrow> (st1\<lparr> proc := p1 \<rparr>, Reply 200 (JsonBody [(''msg'', JStr label)])))"

definition start_route :: "'fs runner \<Rightarrow> 'fs server \<Rightarrow> 'fs server \<times> outcome" where
  "start_route runner st =
     (if started st
      then (let msg = ''Cannot trigger start the action more than once.''
            in error msg 500 (write_stderr (msg @ [NL]) st))
      else notify ''onStart'' ''start'' (start runner) (st\<lparr> started := True \<rparr>))"

definition pause_route :: "'fs runner \<Rightarrow> 'fs server \<Rightarrow> 'fs server \<times> outcome" where
  "pause_route runner st = notify ''onpause'' ''pause'' (pause runner) st"

definition finish_route :: "'fs runner \<Rightarrow> 'fs server \<Rightarrow> 'fs server \<times> outcome" where
  "finish_route runner st = notify ''onfinish'' ''stop'' (stop runner) st"

text \<open>
  \<^verbatim>\<open>flask.jsonify(result)\<close>: a dictionary of JSON values is serialised; an exception
  object under \<^verbatim>\<open>'error'\<close> is not serialisable, which is a \<^verbatim>\<open>TypeError\<close>.
\<close>

fun jsonify :: "result \<Rightarrow> exn + (string \<times> json) list" where
  "jsonify (Dict d) = Inr d"
| "jsonify (ErrorExc e) =
     Inl (Exn ''TypeError'' (''Object of type '' @ exn_type e @ '' is not JSON serializable''))"

text \<open>\<^verbatim>\<open>message or {}\<close>, where the route has checked that a truthy message is a dictionary.\<close>

definition message_or_empty :: "json \<Rightarrow> (string \<times> json) list" where
  "message_or_empty message =
     (if truthy message then (case message of JDict d \<Rightarrow> d | _ \<Rightarrow> []) else [])"

definition run_route :: "'fs lib \<Rightarrow> 'fs runner \<Rightarrow> json \<Rightarrow> 'fs server \<Rightarrow> 'fs server \<times> outcome" where
  "run_route L runner message st =
     (case request_value message of
        None \<Rightarrow> error ''The action did not receive a dictionary as an argument.'' 404 st
      | Some args \<Rightarrow>
          if verify L runner (proc st)
          then (case env L (message_or_empty message) (proc st) of
                  (p1, Inl e) \<Rightarrow> error (''Internal error. '' @ exn_str e) 500 (st\<lparr> proc := p1 \<rparr>)
                | (p1, Inr environment) \<Rightarrow>
                    (case run L runner args environment p1 of
                       (p2, Inl e) \<Rightarrow> error (''Internal error. '' @ exn_str e) 500 (st\<lparr> proc := p2 \<rparr>)
                     | (p2, Inr (code, res)) \<Rightarrow>
                         (case jsonify res of
                            Inl e \<Rightarrow> error (''Internal error. '' @ exn_str e) 500 (st\<lparr> proc := p2 \<rparr>)
                          | Inr d \<Rightarrow> complete (Reply code (JsonBody d)) (st\<lparr> proc := p2 \<rparr>))))
          else error ''The action failed to locate a binary. See logs for details.'' 502 st)"

section \<open>Status classes and the sentinel\<close>

definition client_error :: "int \<Rightarrow> bool" where
  "client_error code = (400 \<le> code \<and> code < 500)"

definition server_error :: "int \<Rightarrow> bool" where
  "server_error code = (500 \<le> code \<and> code < 600)"



section \<open>A concrete instance of the collaborators\<close>

text \<open>
  An instance on which the definitions can be run: the file system is the set of paths
  that hold a runnable file, the child process prints a given text, decoding is the
  identity on ASCII, the parser knows three texts, the serialiser knows dictionaries
  with at most one string entry free of escapes, archives never decode.
\<close>

fun translate :: "string \<Rightarrow> string \<Rightarrow> char \<Rightarrow> char" where
  "translate (x # xs) (y # ys) c = (if c = x then y else translate xs ys c)"
| "translate _ _ c = c"

definition ascii_upper :: "char \<Rightarrow> char" where
  "ascii_upper = translate ''abcdefghijklmnopqrstuvwxyz'' ''ABCDEFGHIJKLMNOPQRSTUVWXYZ''"

definition sample_loads :: "string \<Rightarrow> json option" where
  \<open>sample_loads s =
     (if s = ''{}'' then Some (JDict [])
      else if s = ''{"result": 1}'' then Some (JDict [(''result'', JInt 1)])
      else if s = ''[1, 2]'' then Some (JList [JInt 1, JInt 2])
      else None)\<close>

definition sample_dumps :: "json \<Rightarrow> string" where
  \<open>sample_dumps v =
     (case v of
        JDict [(k, JStr s)] \<Rightarrow> ''{"'' @ k @ ''": "'' @ s @ ''"}''
      | _ \<Rightarrow> ''{}'')\<close>

definition sample_lib :: "string \<Rightarrow> string set lib" where
  "sample_lib child_output =
     \<lparr> json_dumps = sample_dumps,
       json_loads = sample_loads,
       utf8_decode = Inr,
       py_str = (\<lambda>v. ''{...}''),
       str_upper = map ascii_upper,
       popen_communicate = (\<lambda>argv env' input fs. (fs, Inr (child_output, []))),
       write_file = (\<lambda>path code fs. (fs, None)),
       unzip_to = (\<lambda>dest code fs. (fs, Some (Exn ''Error'' ''Incorrect padding''))),
       is_executable = (\<lambda>path fs. path \<in> fs) \<rparr>"

text \<open>
  A decoder that refuses every byte above 127; a child that prints a given text and
  writes the byte 255 to its error stream, read with that decoder; an executable that
  cannot be spawned.
\<close>

definition strict_decode :: "string \<Rightarrow> exn + string" where
  "strict_decode b =
     (if list_all (\<lambda>c. (of_char c :: nat) < 128) b then Inr b
      else Inl (Exn ''UnicodeDecodeError'' ''invalid start byte''))"

definition garbled_lib :: "string \<Rightarrow> string set lib" where
  "garbled_lib child_output =
     (sample_lib child_output)
       \<lparr> utf8_decode := strict_decode,
         popen_communicate := (\<lambda>argv env' input fs. (fs, Inr (child_output, [CHR 0xFF]))) \<rparr>"

definition unspawnable_lib :: "string set lib" where
  "unspawnable_lib =
     (sample_lib [])
       \<lparr> popen_communicate :=
           (\<lambda>argv env' input fs. (fs, Inl (Exn ''FileNotFoundError'' ''No such file''))) \<rparr>"

text \<open>A process in which \<^verbatim>\<open>/action/exec\<close> is runnable, and the proxy as it starts there.\<close>

definition sample_process :: "string set process" where
  "sample_process =
     \<lparr> files = {''/action/exec''}, stdout = [], stderr = [], environ = Map.empty \<rparr>"

definition sample_server :: "string set server" where
  "sample_server = proxy_start sample_process"

section \<open>The last line of the output\<close>

lemma rfind_below_none:
  "(\<And>i. lo \<le> i \<Longrightarrow> i < hi \<Longrightarrow> s ! i \<noteq> c) \<Longrightarrow> rfind_below s c lo hi = -1"
  by (induction hi) auto

lemma rfind_below_last:
  "lo \<le> j \<Longrightarrow> j < hi \<Longrightarrow> s ! j = c \<Longrightarrow> (\<And>i. j < i \<Longrightarrow> i < hi \<Longrightarrow> s ! i \<noteq> c)
     \<Longrightarrow> rfind_below s c lo hi = int j"
proof (induction hi)
  case 0
  then show ?case by simp
next
  case (Suc hi)
  show ?case
  proof (cases "j = hi")
    case True
    with Suc.prems show ?thesis by simp
  next
    case False
    with Suc.prems have "j < hi" by simp
    moreover have "s ! hi \<noteq> c" using Suc.prems False by simp
    ultimately show ?thesis using Suc by simp
  qed
qed

lemma isspace_NL: "isspace NL"
  by (simp add: isspace_def NL_def)

lemma strip_append_NL: "strip (s @ [NL]) = strip s"
proof (cases "\<forall>x\<in>set s. isspace x")
  case True
  then have a: "dropWhile isspace s = []" by simp
  from True have b: "dropWhile isspace (s @ [NL]) = []"
    by (simp only: dropWhile_eq_Nil_conv) (auto simp: isspace_NL)
  show ?thesis unfolding strip_def a b ..
next
  case False
  then obtain x where "x \<in> set s" "\<not> isspace x" by auto
  then have "dropWhile isspace (s @ [NL]) = dropWhile isspace s @ [NL]"
    by (rule dropWhile_append1)
  then show ?thesis by (simp add: strip_def isspace_NL)
qed

lemma rfind_clamped:
  "rfind s c 0 (int (length s) - 1) = rfind_below s c 0 (length s - 1)"
  by (cases s) (auto simp: rfind_def clamp_index_def)

lemma result_line_nth:
  assumes "tail = [] \<or> tail = [NL]" and "k < length (line @ tail) - 1"
  shows "(line @ tail) ! k \<in> set line"
  using assms by (auto simp: nth_append)

lemma split_output_lines:
  assumes logs: "logs = [] \<or> last logs = NL"
    and line: "line \<noteq> []" "NL \<notin> set line"
    and tail: "tail = [] \<or> tail = [NL]"
  shows "split_output (logs @ line @ tail) = (logs, strip line)"
proof -
  let ?out = "logs @ line @ tail"
  have len: "length ?out - 1 = length logs + (length (line @ tail) - 1)"
    using line by (cases line) auto
  have rest: "?out ! i \<noteq> NL" if "length logs \<le> i" "i < length ?out - 1" for i
  proof -
    from that len have "i - length logs < length (line @ tail) - 1" by linarith
    from result_line_nth [OF tail this] have "(line @ tail) ! (i - length logs) \<in> set line" .
    moreover have "?out ! i = (line @ tail) ! (i - length logs)"
      using that by (simp add: nth_append)
    ultimately show ?thesis using line by auto
  qed
  show ?thesis
  proof (cases "logs = []")
    case True
    have "rfind_below ?out NL 0 (length ?out - 1) = -1"
      using rest True by (intro rfind_below_none) simp
    then show ?thesis
      using True tail by (simp only: split_output_def rfind_clamped Let_def) (auto simp: strip_append_NL)
  next
    case False
    with logs have l: "last logs = NL" by simp
    let ?j = "length logs - 1"
    have j: "?j < length ?out - 1" using False len line by (cases logs; cases line) auto
    have at: "?out ! ?j = NL"
      using False l by (simp add: nth_append last_conv_nth)
    have "rfind_below ?out NL 0 (length ?out - 1) = int ?j"
    proof (rule rfind_below_last)
      show "0 \<le> ?j" by simp
      show "?j < length ?out - 1" by (rule j)
      show "?out ! ?j = NL" by (rule at)
      show "?out ! i \<noteq> NL" if "?j < i" "i < length ?out - 1" for i
        using that rest [of i] by simp
    qed
    moreover have "nat (int ?j + 1) = length logs" using False by (cases logs) auto
    moreover have "int ?j \<noteq> -1" by simp
    ultimately show ?thesis
      using tail by (simp only: split_output_def rfind_clamped Let_def) (auto simp: strip_append_NL)
  qed
qed

lemma log_lines_end:
  "concat (map (\<lambda>l. l @ [NL]) ls) = [] \<or> last (concat (map (\<lambda>l. l @ [NL]) ls)) = NL"
  by (cases ls rule: rev_cases) simp_all

section \<open>The executor\<close>

text \<open>
  Claim C1, as the code has it.  The child ran and both of its streams decode as UTF-8.
  If its output is any number of newline-terminated log lines \<open>ls\<close> followed by one line
  whose trimmed text parses as a JSON object, with or without a final newline, then
  \<open>run\<close> returns status 200 with exactly that object, and exactly the log lines are
  written to the output stream.  With no log lines and no final newline the object is
  still the result.
\<close>

theorem run_result_after_logs:
  assumes child:
      "popen_communicate L (invocation (binary self) (json_dumps L (JDict args))) env'
         (json_dumps L (JDict args)) (files p) = (fs', Inr (obytes, ebytes))"
    and out: "utf8_decode L obytes = Inr (concat (map (\<lambda>l. l @ [NL]) ls) @ line @ tail)"
    and err: "utf8_decode L ebytes = Inr err"
    and line: "line \<noteq> []" "NL \<notin> set line"
    and tail: "tail = [] \<or> tail = [NL]"
    and obj: "json_loads L (strip line) = Some (JDict obj)"
  shows "run L self args env' p =
           (p\<lparr> files := fs',
               stdout := stdout p @ concat (map (\<lambda>l. l @ [NL]) ls),
               stderr := stderr p @ err \<rparr>,
            Inr (200, Dict obj))"
proof -
  have "split_output (concat (map (\<lambda>l. l @ [NL]) ls) @ line @ tail)
          = (concat (map (\<lambda>l. l @ [NL]) ls), strip line)"
    using log_lines_end line tail by (rule split_output_lines)
  then show ?thesis
    using child out err obj by (simp add: run_def run_output_def)
qed

text \<open>Two log lines and a terminated result line; a bare result line.\<close>

theorem run_result_after_logs_witness:
  \<open>run (sample_lib (''compiling'' @ [NL] @ ''done'' @ [NL] @ ''{"result": 1}'' @ [NL]))
      ActionRunner [] Map.empty sample_process =
     (sample_process\<lparr> stdout := ''compiling'' @ [NL] @ ''done'' @ [NL] \<rparr>,
      Inr (200, Dict [(''result'', JInt 1)]))
   \<and> run (sample_lib ''{"result": 1}'') ActionRunner [] Map.empty sample_process =
     (sample_process, Inr (200, Dict [(''result'', JInt 1)]))\<close>
proof -
  have s: \<open>strip ''{"result": 1}'' = ''{"result": 1}''\<close>
    by (simp add: strip_def isspace_def)
  have n: \<open>NL \<notin> set ''{"result": 1}''\<close>
    by (simp add: NL_def)
  have a: \<open>run (sample_lib (''compiling'' @ [NL] @ ''done'' @ [NL] @ ''{"result": 1}'' @ [NL]))
      ActionRunner [] Map.empty sample_process =
     (sample_process\<lparr> stdout := ''compiling'' @ [NL] @ ''done'' @ [NL] \<rparr>,
      Inr (200, Dict [(''result'', JInt 1)]))\<close>
    using run_result_after_logs [where L = \<open>sample_lib (''compiling'' @ [NL] @ ''done'' @ [NL] @ ''{"result": 1}'' @ [NL])\<close>
        and self = ActionRunner and args = "[]" and env' = Map.empty and p = sample_process
        and ls = "[''compiling'', ''done'']" and line = \<open>''{"result": 1}''\<close> and tail = "[NL]"
        and obj = "[(''result'', JInt 1)]" and err = "[]" and fs' = "{''/action/exec''}"
        and obytes = \<open>''compiling'' @ [NL] @ ''done'' @ [NL] @ ''{"result": 1}'' @ [NL]\<close> and ebytes = "[]"]
      s n
    by (simp add: sample_lib_def sample_loads_def sample_process_def)
  have b: \<open>run (sample_lib ''{"result": 1}'') ActionRunner [] Map.empty sample_process =
     (sample_process, Inr (200, Dict [(''result'', JInt 1)]))\<close>
    using run_result_after_logs [where L = \<open>sample_lib ''{"result": 1}''\<close>
        and self = ActionRunner and args = "[]" and env' = Map.empty and p = sample_process
        and ls = "[]" and line = \<open>''{"result": 1}''\<close> and tail = "[]"
        and obj = "[(''result'', JInt 1)]" and err = "[]" and fs' = "{''/action/exec''}"
        and obytes = \<open>''{"result": 1}''\<close> and ebytes = "[]"]
      s n
    by (simp add: sample_lib_def sample_loads_def sample_process_def)
  from a b show ?thesis by simp
qed

text \<open>
  Claim C1 as stated fails when a stream does not decode: the output is one log line and
  a JSON-object line, the error stream holds the byte 255, and \<open>run\<close> raises from
  \<^verbatim>\<open>e.decode('utf-8')\<close> with nothing returned and no log line forwarded.
\<close>

theorem undecodable_stderr_counterexample:
  \<open>run (garbled_lib (''log'' @ [NL] @ ''{"result": 1}'' @ [NL])) ActionRunner [] Map.empty
      sample_process =
     (sample_process, Inl (Exn ''UnicodeDecodeError'' ''invalid start byte''))\<close>
  by (simp add: run_def run_output_def garbled_lib_def sample_lib_def strict_decode_def
      sample_process_def NL_def)

text \<open>
  Claim C2, as the code has it.  \<open>run\<close> gives the child the serialised arguments on its
  input stream in both cases; the argument vector also carries them when their length is
  at most 131071, and is the executable alone when the length exceeds 131071.
\<close>

theorem invocation_threshold:
  "(length (json_dumps L (JDict args)) \<le> 131071 \<longrightarrow>
      run L self args env' p =
        run_output L p
          (popen_communicate L [binary self, json_dumps L (JDict args)] env'
             (json_dumps L (JDict args)) (files p)))
   \<and> (131071 < length (json_dumps L (JDict args)) \<longrightarrow>
      run L self args env' p =
        run_output L p
          (popen_communicate L [binary self] env' (json_dumps L (JDict args)) (files p)))"
  by (simp add: run_def invocation_def Let_def)

lemma sample_dumps_entry:
  \<open>sample_dumps (JDict [(k, JStr s)]) = ''{"'' @ k @ ''": "'' @ s @ ''"}''\<close>
  by (simp add: sample_dumps_def)

text \<open>A short argument takes both routes; 131072 characters go by the input stream only.\<close>

theorem invocation_threshold_witness:
  \<open>run (sample_lib ''{}'') ActionRunner [(''a'', JStr ''x'')] Map.empty sample_process =
     run_output (sample_lib ''{}'') sample_process
       (popen_communicate (sample_lib ''{}'') [''/action/exec'', ''{"a": "x"}''] Map.empty
          ''{"a": "x"}'' {''/action/exec''})
   \<and> run (sample_lib ''{}'') ActionRunner [(''a'', JStr (replicate 131063 CHR ''x''))]
       Map.empty sample_process =
     run_output (sample_lib ''{}'') sample_process
       (popen_communicate (sample_lib ''{}'') [''/action/exec''] Map.empty
          (''{"a": "'' @ replicate 131063 CHR ''x'' @ ''"}'') {''/action/exec''})\<close>
  using invocation_threshold [of \<open>sample_lib ''{}''\<close> "[(''a'', JStr ''x'')]"
      ActionRunner Map.empty sample_process]
    invocation_threshold [of \<open>sample_lib ''{}''\<close> "[(''a'', JStr (replicate 131063 CHR ''x''))]"
      ActionRunner Map.empty sample_process]
  by (simp add: sample_lib_def sample_dumps_entry ActionRunner_def sample_process_def)

text \<open>
  Claim C2 as stated fails at the boundary: \<^verbatim>\<open>{"a": "x...x"}\<close> with 131062 times
  \<^verbatim>\<open>x\<close> serialises to exactly 131071 characters, and the argument vector still carries
  it.
\<close>

theorem invocation_boundary_counterexample:
  \<open>length (json_dumps (sample_lib ''{}'') (JDict [(''a'', JStr (replicate 131062 CHR ''x''))]))
     = 131071
   \<and> invocation ''/action/exec''
       (json_dumps (sample_lib ''{}'') (JDict [(''a'', JStr (replicate 131062 CHR ''x''))]))
     = [''/action/exec'', ''{"a": "'' @ replicate 131062 CHR ''x'' @ ''"}'']\<close>
  by (simp add: sample_lib_def sample_dumps_entry invocation_def)

text \<open>
  Claim C6, as the code has it.  If the child ran, both of its streams decode as UTF-8
  and the last line does not parse as a JSON object (it does not parse, or parses to
  another kind of value), \<open>run\<close> returns status 502 with the last line as the error
  string, and writes it to the output stream after the log lines.  The last line is the
  trimmed text after the last newline that is not the final character.  502 is a
  server-class status.
\<close>

theorem run_error_result:
  "(popen_communicate L (invocation (binary self) (json_dumps L (JDict args))) env'
        (json_dumps L (JDict args)) (files p) = (fs', Inr (obytes, ebytes))
      \<and> utf8_decode L obytes = Inr out \<and> utf8_decode L ebytes = Inr err
      \<and> (\<forall>d. json_loads L (snd (split_output out)) \<noteq> Some (JDict d)) \<longrightarrow>
      run L self args env' p =
        (p\<lparr> files := fs',
            stdout := stdout p @ fst (split_output out) @ snd (split_output out) @ [NL],
            stderr := stderr p @ err \<rparr>,
         Inr (502, Dict [(''error'', JStr (snd (split_output out)))])))
   \<and> (line \<noteq> [] \<and> NL \<notin> set line \<and> (tail = [] \<or> tail = [NL]) \<longrightarrow>
      split_output (concat (map (\<lambda>l. l @ [NL]) ls) @ line @ tail) =
        (concat (map (\<lambda>l. l @ [NL]) ls), strip line))
   \<and> server_error 502"
proof (intro conjI impI)
  assume a: "popen_communicate L (invocation (binary self) (json_dumps L (JDict args))) env'
        (json_dumps L (JDict args)) (files p) = (fs', Inr (obytes, ebytes))
      \<and> utf8_decode L obytes = Inr out \<and> utf8_decode L ebytes = Inr err
      \<and> (\<forall>d. json_loads L (snd (split_output out)) \<noteq> Some (JDict d))"
  obtain logs lastLine where s: "split_output out = (logs, lastLine)"
    by (cases "split_output out")
  with a have "\<forall>d. json_loads L lastLine \<noteq> Some (JDict d)" by simp
  then have "(case json_loads L lastLine of
                Some (JDict json_output) \<Rightarrow> (q, Inr (200, Dict json_output))
              | _ \<Rightarrow> runner_error (MsgStr lastLine) q) = runner_error (MsgStr lastLine) q" for q :: "'a process"
    by (cases "json_loads L lastLine"; simp split: json.splits)
  with a s show "run L self args env' p =
        (p\<lparr> files := fs',
            stdout := stdout p @ fst (split_output out) @ snd (split_output out) @ [NL],
            stderr := stderr p @ err \<rparr>,
         Inr (502, Dict [(''error'', JStr (snd (split_output out)))]))"
    by (simp add: run_def run_output_def runner_error_def)
next
  assume "line \<noteq> [] \<and> NL \<notin> set line \<and> (tail = [] \<or> tail = [NL])"
  then show "split_output (concat (map (\<lambda>l. l @ [NL]) ls) @ line @ tail) =
        (concat (map (\<lambda>l. l @ [NL]) ls), strip line)"
    using log_lines_end [of ls] by (intro split_output_lines) simp_all
next
  show "server_error 502" by (simp add: server_error_def)
qed

text \<open>
  A last line that is a JSON array; a last line that is no JSON.
\<close>

theorem run_error_result_witness:
  \<open>run (sample_lib (''log'' @ [NL] @ ''[1, 2]'' @ [NL])) ActionRunner [] Map.empty sample_process =
     (sample_process\<lparr> stdout := ''log'' @ [NL] @ ''[1, 2]'' @ [NL] \<rparr>,
      Inr (502, Dict [(''error'', JStr ''[1, 2]'')]))
   \<and> run (sample_lib ''oops'') ActionRunner [] Map.empty sample_process =
     (sample_process\<lparr> stdout := ''oops'' @ [NL] \<rparr>,
      Inr (502, Dict [(''error'', JStr ''oops'')]))\<close>
proof -
  have s: \<open>split_output (''log'' @ [NL] @ ''[1, 2]'' @ [NL]) = (''log'' @ [NL], ''[1, 2]'')\<close>
    by (simp add: split_output_def rfind_def clamp_index_def NL_def strip_def isspace_def
        eval_nat_numeral)
  have t: \<open>split_output ''oops'' = ([], ''oops'')\<close>
    by (simp add: split_output_def rfind_def clamp_index_def NL_def strip_def isspace_def
        eval_nat_numeral)
  have a: \<open>run (sample_lib (''log'' @ [NL] @ ''[1, 2]'' @ [NL])) ActionRunner [] Map.empty sample_process =
     (sample_process\<lparr> stdout := ''log'' @ [NL] @ ''[1, 2]'' @ [NL] \<rparr>,
      Inr (502, Dict [(''error'', JStr ''[1, 2]'')]))\<close>
    using run_error_result [where L = \<open>sample_lib (''log'' @ [NL] @ ''[1, 2]'' @ [NL])\<close>
        and self = ActionRunner and args = "[]" and env' = Map.empty and p = sample_process
        and fs' = "{''/action/exec''}" and obytes = \<open>''log'' @ [NL] @ ''[1, 2]'' @ [NL]\<close>
        and ebytes = "[]" and out = \<open>''log'' @ [NL] @ ''[1, 2]'' @ [NL]\<close> and err = "[]"]
    by (simp add: s [simplified] sample_lib_def sample_loads_def sample_process_def)
  have b: \<open>run (sample_lib ''oops'') ActionRunner [] Map.empty sample_process =
     (sample_process\<lparr> stdout := ''oops'' @ [NL] \<rparr>,
      Inr (502, Dict [(''error'', JStr ''oops'')]))\<close>
    using run_error_result [where L = \<open>sample_lib ''oops''\<close>
        and self = ActionRunner and args = "[]" and env' = Map.empty and p = sample_process
        and fs' = "{''/action/exec''}" and obytes = \<open>''oops''\<close>
        and ebytes = "[]" and out = \<open>''oops''\<close> and err = "[]"]
    by (simp add: t [simplified] sample_lib_def sample_loads_def sample_process_def)
  from a b show ?thesis by simp
qed

text \<open>
  Claim C6 as stated fails twice.  When the error stream does not decode, \<open>run\<close> raises
  and returns no error result.  When the executable cannot be spawned, \<^verbatim>\<open>_error(e)\<close>
  puts the exception object, not its message, under \<^verbatim>\<open>'error'\<close>; \<^verbatim>\<open>jsonify\<close> cannot
  serialise it, and the route answers 500 with a text that does not carry the
  exception message.
\<close>

theorem run_error_counterexample:
  \<open>run (garbled_lib ''oops'') ActionRunner [] Map.empty sample_process =
     (sample_process, Inl (Exn ''UnicodeDecodeError'' ''invalid start byte''))
   \<and> run unspawnable_lib ActionRunner [] Map.empty sample_process =
     (sample_process\<lparr> stdout := ''No such file'' @ [NL] \<rparr>,
      Inr (502, ErrorExc (Exn ''FileNotFoundError'' ''No such file'')))
   \<and> run_route unspawnable_lib ActionRunner (JDict [(''value'', JDict [])]) sample_server =
     (sample_server
        \<lparr> proc := sample_process
            \<lparr> stdout := ''No such file'' @ [NL] @ LOG_SENTINEL @ [NL],
              stderr := LOG_SENTINEL @ [NL] \<rparr> \<rparr>,
      Reply 500 (JsonBody [(''error'',
        JStr ''Internal error. Object of type FileNotFoundError is not JSON serializable'')]))\<close>
proof -
  have a: \<open>run (garbled_lib ''oops'') ActionRunner [] Map.empty sample_process =
     (sample_process, Inl (Exn ''UnicodeDecodeError'' ''invalid start byte''))\<close>
    by (simp add: run_def run_output_def garbled_lib_def sample_lib_def strict_decode_def
        sample_process_def)
  have b: \<open>run unspawnable_lib ActionRunner [] Map.empty sample_process =
     (sample_process\<lparr> stdout := ''No such file'' @ [NL] \<rparr>,
      Inr (502, ErrorExc (Exn ''FileNotFoundError'' ''No such file'')))\<close>
    by (simp add: run_def run_output_def runner_error_def unspawnable_lib_def sample_lib_def
        sample_process_def)
  have c: \<open>run_route unspawnable_lib ActionRunner (JDict [(''value'', JDict [])]) sample_server =
     (sample_server
        \<lparr> proc := sample_process
            \<lparr> stdout := ''No such file'' @ [NL] @ LOG_SENTINEL @ [NL],
              stderr := LOG_SENTINEL @ [NL] \<rparr> \<rparr>,
      Reply 500 (JsonBody [(''error'',
        JStr ''Internal error. Object of type FileNotFoundError is not JSON serializable'')]))\<close>
    by (simp add: run_route_def request_value_def verify_def env_def message_or_empty_def
        run_def run_output_def runner_error_def error_def complete_def log_def
        sample_server_def proxy_start_def sample_process_def unspawnable_lib_def sample_lib_def
        ActionRunner_def environ_setitem_def)
  from a b c show ?thesis by simp
qed

section \<open>Initialization\<close>


lemma sample_py_str: "py_str (sample_lib c) v = ''{...}''"
  by (simp add: sample_lib_def)

lemma sample_init_ok:
  "init (sample_lib []) ActionRunner [(''code'', JStr ''print(1)'')] q =
     (q\<lparr> stdout := stdout q @ ''{...}'' @ [NL] @ ''verified: '' @
                 (if ''/action/exec'' \<in> files q then ''True'' else ''False'') @ [NL],
         stderr := stderr q @ ''{...}'' @ [NL] @ ''verified: '' @
                 (if ''/action/exec'' \<in> files q then ''True'' else ''False'') @ [NL] \<rparr>,
      Inr (''/action/exec'' \<in> files q))"
  by (simp add: init_def prep_def initCodeFromString_def verified_result_def verify_def
      log_def sample_lib_def ActionRunner_def Let_def)








text \<open>
  Claim C4.  When reinitialization is rejected and the proxy is initialized, \<open>init_route\<close>
  answers 403, a client-class status, whatever the request, the collaborators and the
  hooks are.  The state it returns differs from the one it was given in the two log
  streams only: the refusal on the error stream and the sentinel on both.  The flags,
  the files and the environment are the same.
\<close>

theorem reinit_refused:
  assumes "rejectReinit st" and "initialized st"
  shows "init_route L runner message st =
           (st\<lparr> proc := (proc st)
                 \<lparr> stdout := stdout (proc st) @ LOG_SENTINEL @ [NL],
                   stderr := stderr (proc st) @ ''Cannot initialize the action more than once.''
                               @ [NL] @ LOG_SENTINEL @ [NL] \<rparr> \<rparr>,
            Reply 403 (JsonBody [(''error'', JStr ''Cannot initialize the action more than once.'')]))
         \<and> client_error 403"
  using assms
  by (simp add: init_route_def error_def complete_def write_stderr_def log_def client_error_def)

text \<open>
  The proxy as it starts without \<^verbatim>\<open>PROXY_ALLOW_REINIT\<close>, once initialized.
\<close>

theorem reinit_refused_witness:
  "init_route (sample_lib []) ActionRunner (JDict [(''value'', JDict [(''code'', JStr ''x'')])])
     (sample_server\<lparr> initialized := True \<rparr>) =
     (sample_server
        \<lparr> proc := sample_process
            \<lparr> stdout := LOG_SENTINEL @ [NL],
              stderr := ''Cannot initialize the action more than once.'' @ [NL]
                          @ LOG_SENTINEL @ [NL] \<rparr>,
          initialized := True \<rparr>,
      Reply 403 (JsonBody [(''error'', JStr ''Cannot initialize the action more than once.'')]))"
proof -
  have a: "rejectReinit (sample_server\<lparr> initialized := True \<rparr>)"
    by (simp add: sample_server_def proxy_start_def sample_process_def)
  have b: "initialized (sample_server\<lparr> initialized := True \<rparr>)"
    by simp
  show ?thesis
    using reinit_refused [OF a b, of "sample_lib []" ActionRunner
        "JDict [(''value'', JDict [(''code'', JStr ''x'')])]"]
    by (simp add: sample_server_def proxy_start_def sample_process_def)
qed

text \<open>
  Claim C9.  Whenever \<open>init_route\<close> answers 200, \<open>initialized\<close> is true and \<open>started\<close> is
  false in the state it returns.
\<close>

theorem init_success_state:
  assumes "init_route L runner message st = (st', Reply 200 b)"
  shows "initialized st' \<and> \<not> started st'"
  using assms
  by (auto simp: init_route_def Let_def error_def complete_def
      split: if_splits option.splits prod.splits sum.splits)

text \<open>
  A successful initialization of a proxy on which start had been triggered.
\<close>

theorem init_success_state_witness:
  "init_route (sample_lib []) ActionRunner
     (JDict [(''value'', JDict [(''code'', JStr ''print(1)'')])])
     (sample_server\<lparr> started := True \<rparr>) =
     (sample_server
        \<lparr> proc := sample_process
            \<lparr> stdout := ''{...}'' @ [NL] @ ''{...}'' @ [NL] @ ''verified: True'' @ [NL],
              stderr := ''{...}'' @ [NL] @ ''{...}'' @ [NL] @ ''verified: True'' @ [NL] \<rparr>,
          initialized := True, started := False \<rparr>,
      Reply 200 (TextBody ''OK''))
   \<and> initialized (fst (init_route (sample_lib []) ActionRunner
         (JDict [(''value'', JDict [(''code'', JStr ''print(1)'')])])
         (sample_server\<lparr> started := True \<rparr>)))
   \<and> \<not> started (fst (init_route (sample_lib []) ActionRunner
         (JDict [(''value'', JDict [(''code'', JStr ''print(1)'')])])
         (sample_server\<lparr> started := True \<rparr>)))"
proof -
  have r: "init_route (sample_lib []) ActionRunner
     (JDict [(''value'', JDict [(''code'', JStr ''print(1)'')])])
     (sample_server\<lparr> started := True \<rparr>) =
     (sample_server
        \<lparr> proc := sample_process
            \<lparr> stdout := ''{...}'' @ [NL] @ ''{...}'' @ [NL] @ ''verified: True'' @ [NL],
              stderr := ''{...}'' @ [NL] @ ''{...}'' @ [NL] @ ''verified: True'' @ [NL] \<rparr>,
          initialized := True, started := False \<rparr>,
      Reply 200 (TextBody ''OK''))"
    by (simp add: init_route_def request_value_def sample_init_ok features_def Let_def
        sample_server_def proxy_start_def sample_process_def log_def sample_py_str)
  from init_success_state [OF r] r show ?thesis by simp
qed

section \<open>Start, pause and finish\<close>

text \<open>
  Claim C7 does not hold of the code: the routes call \<^verbatim>\<open>runner.pause()\<close> and
  \<^verbatim>\<open>runner.stop()\<close> without arguments, while \<^verbatim>\<open>ActionRunner\<close> declares both with the
  parameters \<^verbatim>\<open>args\<close> and \<^verbatim>\<open>env\<close>.  With the runner \<^verbatim>\<open>__main__\<close> installs, in every
  state, the call is a \<^verbatim>\<open>TypeError\<close> that leaves the route before the response with
  status 200 is built.
\<close>

theorem pause_finish_raise:
  "pause_route ActionRunner st =
     (st\<lparr> proc := log ''onpause'' (proc st) \<rparr>,
      Unhandled (Exn ''TypeError'' ''pause() missing required positional arguments''))
   \<and> finish_route ActionRunner st =
     (st\<lparr> proc := log ''onfinish'' (proc st) \<rparr>,
      Unhandled (Exn ''TypeError'' ''stop() missing required positional arguments''))"
  by (simp add: pause_route_def finish_route_def notify_def ActionRunner_def)

text \<open>
  Claim C8, as the code has it.  Every start request leaves \<open>started\<close> true, whatever
  the start hook does.  A start request while \<open>started\<close> is true is refused: the flags,
  the files and the environment stay as they were, the refusal goes to the error stream,
  and the answer has status 500, a server-class status.  So a start request that follows
  another one is always answered with 500.
\<close>

theorem second_start_refused:
  "started (fst (start_route runner st))
   \<and> (started st \<longrightarrow>
        start_route runner st =
           (st\<lparr> proc := (proc st)
                 \<lparr> stdout := stdout (proc st) @ LOG_SENTINEL @ [NL],
                   stderr := stderr (proc st) @ ''Cannot trigger start the action more than once.''
                               @ [NL] @ LOG_SENTINEL @ [NL] \<rparr> \<rparr>,
            Reply 500 (JsonBody [(''error'', JStr ''Cannot trigger start the action more than once.'')])))
   \<and> snd (start_route runner (fst (start_route runner st))) =
        Reply 500 (JsonBody [(''error'', JStr ''Cannot trigger start the action more than once.'')])
   \<and> server_error 500"
proof -
  have set: "started (fst (start_route runner st'))" for st' :: "'a server"
    by (cases "start runner")
      (auto simp: start_route_def notify_def error_def complete_def write_stderr_def Let_def
        split: prod.splits option.splits)
  have refused: "start_route runner st' =
           (st'\<lparr> proc := (proc st')
                 \<lparr> stdout := stdout (proc st') @ LOG_SENTINEL @ [NL],
                   stderr := stderr (proc st') @ ''Cannot trigger start the action more than once.''
                               @ [NL] @ LOG_SENTINEL @ [NL] \<rparr> \<rparr>,
            Reply 500 (JsonBody [(''error'', JStr ''Cannot trigger start the action more than once.'')]))"
    if "started st'" for st' :: "'a server"
    using that
    by (simp add: start_route_def error_def complete_def write_stderr_def log_def)
  from refused [OF set [of st]]
  have "snd (start_route runner (fst (start_route runner st))) =
        Reply 500 (JsonBody [(''error'', JStr ''Cannot trigger start the action more than once.'')])"
    by simp
  with set [of st] refused [of st] show ?thesis
    by (simp add: server_error_def)
qed

text \<open>
  The proxy as it starts: the first start sets the flag, the second is refused.
\<close>

theorem second_start_refused_witness:
  "started (fst (start_route ActionRunner sample_server))
   \<and> start_route ActionRunner (sample_server\<lparr> started := True \<rparr>) =
     (sample_server
        \<lparr> proc := sample_process
            \<lparr> stdout := LOG_SENTINEL @ [NL],
              stderr := ''Cannot trigger start the action more than once.'' @ [NL]
                          @ LOG_SENTINEL @ [NL] \<rparr>,
          started := True \<rparr>,
      Reply 500 (JsonBody [(''error'', JStr ''Cannot trigger start the action more than once.'')]))
   \<and> snd (start_route ActionRunner (fst (start_route ActionRunner sample_server))) =
      Reply 500 (JsonBody [(''error'', JStr ''Cannot trigger start the action more than once.'')])"
proof -
  have a: "started (sample_server\<lparr> started := True \<rparr>)" by simp
  from second_start_refused [of ActionRunner "sample_server\<lparr> started := True \<rparr>"] a
  have "start_route ActionRunner (sample_server\<lparr> started := True \<rparr>) =
     (sample_server
        \<lparr> proc := sample_process
            \<lparr> stdout := LOG_SENTINEL @ [NL],
              stderr := ''Cannot trigger start the action more than once.'' @ [NL]
                          @ LOG_SENTINEL @ [NL] \<rparr>,
          started := True \<rparr>,
      Reply 500 (JsonBody [(''error'', JStr ''Cannot trigger start the action more than once.'')]))"
    by (simp add: sample_server_def proxy_start_def sample_process_def)
  with second_start_refused [of ActionRunner sample_server] show ?thesis
    by blast
qed

text \<open>
  Claim C8 as stated fails in the status class: the refusal is answered with 500,
  which is not a client-class status.
\<close>

theorem second_start_counterexample:
  "snd (start_route ActionRunner (sample_server\<lparr> started := True \<rparr>)) =
     Reply 500 (JsonBody [(''error'', JStr ''Cannot trigger start the action more than once.'')])
   \<and> \<not> client_error 500"
  by (simp add: start_route_def error_def complete_def client_error_def)

section \<open>The completion marker\<close>






section \<open>The environment\<close>







end
